theory Spec2Isabelle
  imports Complex_Main "HOL-Library.Multiset"
begin

section \<open>Python values\<close>

text \<open>
  The values that travel through \<^verbatim>\<open>db_query.py\<close>: column values read from the
  database, the JSON documents of \<^verbatim>\<open>Result.metrics\<close>, the arguments of the query
  functions and the values of a filter mapping. A date is \<^verbatim>\<open>datetime.date\<close>, kept as
  year, month and day. A float is kept as the rational number it denotes: the code never
  computes with one, it only tests it for zero and compares it (NaN and the infinities
  are not modelled).
\<close>

datatype scalar =
    SNone
  | SBool bool
  | SInt int
  | SFloat rat
  | SStr string
  | SDate nat nat nat

datatype pyval =
    Atom scalar
  | PList "pyval list"
  | PDict "(string \<times> pyval) list"

datatype error =
    AttributeError
  | KeyError
  | TypeError
  | BindMismatch

text \<open>Python truth value testing, as \<^verbatim>\<open>if value:\<close> applies it.\<close>

fun truthy_scalar :: "scalar \<Rightarrow> bool" where
  "truthy_scalar SNone = False"
| "truthy_scalar (SBool b) = b"
| "truthy_scalar (SInt i) = (i \<noteq> 0)"
| "truthy_scalar (SFloat x) = (x \<noteq> 0)"
| "truthy_scalar (SStr s) = (s \<noteq> [])"
| "truthy_scalar (SDate y m d) = True"

fun truthy :: "pyval \<Rightarrow> bool" where
  "truthy (Atom a) = truthy_scalar a"
| "truthy (PList xs) = (xs \<noteq> [])"
| "truthy (PDict kvs) = (kvs \<noteq> [])"

text \<open>\<^verbatim>\<open>isinstance(v, list)\<close>, and the elements of a list.\<close>

fun isinstance_list :: "pyval \<Rightarrow> bool" where
  "isinstance_list (PList xs) = True"
| "isinstance_list v = False"

fun list_items :: "pyval \<Rightarrow> pyval list" where
  "list_items (PList xs) = xs"
| "list_items v = []"

text \<open>
  \<^verbatim>\<open>d.items()\<close>: the entries of a dict, in its order; any other value has no such
  attribute.
\<close>

fun items :: "pyval \<Rightarrow> error + (string \<times> pyval) list" where
  "items (PDict kvs) = Inr kvs"
| "items v = Inl AttributeError"

definition ebind :: "error + 'a \<Rightarrow> ('a \<Rightarrow> error + 'b) \<Rightarrow> error + 'b" where
  "ebind m f = (case m of Inl e \<Rightarrow> Inl e | Inr x \<Rightarrow> f x)"

text \<open>A step that may raise, applied to every element of a list, left to right.\<close>

fun traverse :: "('a \<Rightarrow> error + 'b) \<Rightarrow> 'a list \<Rightarrow> error + 'b list" where
  "traverse f [] = Inr []"
| "traverse f (x # xs) =
     ebind (f x) (\<lambda>y. ebind (traverse f xs) (\<lambda>ys. Inr (y # ys)))"

section \<open>The schema of \<^verbatim>\<open>db_create.py\<close>\<close>

text \<open>
  A column declared without \<^verbatim>\<open>nullable=False\<close> may hold NULL, read as \<open>None\<close>.
  \<^verbatim>\<open>metrics\<close> is a JSONB column: any JSON value.
\<close>

record analysis =
  analysis_id :: int
  analysis_name :: string
  date :: "(nat \<times> nat \<times> nat) option"
  department :: string
  analyst :: string

record sample =
  sample_id :: int
  sample_name :: string
  sample_type :: "string option"
  sample_description :: "string option"
  analysis_id :: "int option"

record result =
  result_id :: int
  sample_id :: "int option"
  metrics :: pyval

text \<open>The session: the rows of the three tables.\<close>

record session =
  analyses :: "analysis list"
  samples :: "sample list"
  results :: "result list"

section \<open>Ordered dictionaries and data frames\<close>

type_synonym odict = "(string \<times> pyval) list"

text \<open>\<^verbatim>\<open>d[k] = v\<close> on an \<^verbatim>\<open>OrderedDict\<close>: a key already there keeps its place.\<close>

fun od_setitem :: "odict \<Rightarrow> string \<Rightarrow> pyval \<Rightarrow> odict" where
  "od_setitem [] k v = [(k, v)]"
| "od_setitem ((k', v') # d) k v =
     (if k' = k then (k, v) # d else (k', v') # od_setitem d k v)"

text \<open>\<^verbatim>\<open>d.update(pairs)\<close>: the pairs are stored one after the other.\<close>

fun od_update :: "odict \<Rightarrow> (string \<times> pyval) list \<Rightarrow> odict" where
  "od_update d [] = d"
| "od_update d ((k, v) # kvs) = od_update (od_setitem d k v) kvs"

text \<open>
  A data frame has named columns and rows of cells, one cell per column. A cell that no
  value was given for is \<open>NaN\<close>.
\<close>

datatype cell = NaN | Cell pyval

record dataframe =
  columns :: "string list"
  cells :: "cell list list"

text \<open>
  \<^verbatim>\<open>pd.DataFrame(rows)\<close> on a list of ordered dicts: the columns are the keys in
  the order in which they are first met, and a row has \<open>NaN\<close> where its dict has no
  such key.
\<close>

fun add_keys :: "string list \<Rightarrow> string list \<Rightarrow> string list" where
  "add_keys acc [] = acc"
| "add_keys acc (k # ks) = add_keys (if k \<in> set acc then acc else acc @ [k]) ks"

fun union_keys :: "string list \<Rightarrow> odict list \<Rightarrow> string list" where
  "union_keys acc [] = acc"
| "union_keys acc (d # ds) = union_keys (add_keys acc (map fst d)) ds"

definition dict_cell :: "odict \<Rightarrow> string \<Rightarrow> cell" where
  "dict_cell d c = (case map_of d c of None \<Rightarrow> NaN | Some v \<Rightarrow> Cell v)"

definition DataFrame :: "odict list \<Rightarrow> dataframe" where
  "DataFrame ds =
     (let cols = union_keys [] ds
      in \<lparr>columns = cols, cells = map (\<lambda>d. map (dict_cell d) cols) ds\<rparr>)"

text \<open>
  Reading a data frame: the position of a column name, the cell of a row at a position,
  and \<^verbatim>\<open>df.loc[i, k]\<close>, the cell of row \<open>i\<close> in column \<open>k\<close>.
\<close>

fun index_of :: "string list \<Rightarrow> string \<Rightarrow> nat option" where
  "index_of [] k = None"
| "index_of (c # cs) k = (if c = k then Some 0 else map_option Suc (index_of cs k))"

definition cell_at :: "cell list \<Rightarrow> nat \<Rightarrow> cell" where
  "cell_at r j = (if j < length r then r ! j else NaN)"

definition loc :: "dataframe \<Rightarrow> nat \<Rightarrow> string \<Rightarrow> error + cell" where
  "loc df i k =
     (case index_of (columns df) k of
        None \<Rightarrow> Inl KeyError
      | Some j \<Rightarrow> if i < length (cells df) then Inr (cell_at (cells df ! i) j) else Inl KeyError)"

section \<open>\<^verbatim>\<open>return_dataframe\<close>\<close>

definition opt_int :: "int option \<Rightarrow> pyval" where
  "opt_int x = (case x of None \<Rightarrow> Atom SNone | Some i \<Rightarrow> Atom (SInt i))"

text \<open>The body of the loop: the row of one record of the query.\<close>

definition flatten_record :: "result \<times> sample \<Rightarrow> error + odict" where
  "flatten_record record =
     (case record of (result, sample) \<Rightarrow>
        (let row = [(''sample_name'', Atom (SStr (sample_name sample))),
                    (''analysis_id'', opt_int (sample.analysis_id sample))]
         in ebind (items (metrics result)) (\<lambda>kvs. Inr (od_update row kvs))))"

fun flatten_loop :: "odict list \<Rightarrow> (result \<times> sample) list \<Rightarrow> error + odict list" where
  "flatten_loop rows [] = Inr rows"
| "flatten_loop rows (record # query) =
     ebind (flatten_record record) (\<lambda>row. flatten_loop (rows @ [row]) query)"

definition return_dataframe :: "(result \<times> sample) list \<Rightarrow> error + dataframe" where
  "return_dataframe query = ebind (flatten_loop [] query) (\<lambda>rows. Inr (DataFrame rows))"

text \<open>The keys of a metrics document (none when it is not a dict).\<close>

fun metric_keys :: "pyval \<Rightarrow> string list" where
  "metric_keys (PDict kvs) = map fst kvs"
| "metric_keys v = []"

fun is_dict :: "pyval \<Rightarrow> bool" where
  "is_dict (PDict kvs) = True"
| "is_dict v = False"

section \<open>The queries\<close>

text \<open>
  \<^verbatim>\<open>session.query(Result, Sample).join(Sample)\<close>: the inner join of the results
  with the samples on the foreign key \<^verbatim>\<open>results.sample_id\<close>. SQL leaves the order of
  the rows open; the model lists them result by result.
\<close>

definition query_join :: "session \<Rightarrow> (result \<times> sample) list" where
  "query_join s =
     concat (map (\<lambda>r. map (Pair r)
                        (filter (\<lambda>sm. result.sample_id r = Some (sample.sample_id sm)) (samples s)))
                 (results s))"

text \<open>
  The parameters bound into a filter. The documented arguments are
  \<^verbatim>\<open>Union[int, List[int]]\<close> and \<^verbatim>\<open>Union[str, List[str]]\<close>. A parameter of another
  Python type than the column's is left to the database, which rejects most such
  statements and coerces a few; the model does not follow it there and stops with
  \<open>BindMismatch\<close>.
\<close>

fun int_param :: "pyval \<Rightarrow> error + int" where
  "int_param (Atom (SInt i)) = Inr i"
| "int_param v = Inl BindMismatch"

fun str_param :: "pyval \<Rightarrow> error + string" where
  "str_param (Atom (SStr s)) = Inr s"
| "str_param v = Inl BindMismatch"

text \<open>
  The predicates of the two filters on a joined row. A NULL \<^verbatim>\<open>analysis_id\<close> is
  equal to nothing and a member of nothing.
\<close>

definition analysis_id_eq :: "int \<Rightarrow> result \<times> sample \<Rightarrow> bool" where
  "analysis_id_eq a record = (sample.analysis_id (snd record) = Some a)"

definition analysis_id_in :: "int list \<Rightarrow> result \<times> sample \<Rightarrow> bool" where
  "analysis_id_in as record =
     (case sample.analysis_id (snd record) of None \<Rightarrow> False | Some a \<Rightarrow> a \<in> set as)"

definition sample_name_eq :: "string \<Rightarrow> result \<times> sample \<Rightarrow> bool" where
  "sample_name_eq n record = (sample_name (snd record) = n)"

definition sample_name_in :: "string list \<Rightarrow> result \<times> sample \<Rightarrow> bool" where
  "sample_name_in ns record = (sample_name (snd record) \<in> set ns)"

definition get_results_by_analysis :: "session \<Rightarrow> pyval \<Rightarrow> error + dataframe" where
  "get_results_by_analysis s analysis_id' =
     (let query = query_join s
      in if truthy analysis_id' \<and> isinstance_list analysis_id' then
           ebind (traverse int_param (list_items analysis_id'))
             (\<lambda>as. return_dataframe (filter (analysis_id_in as) query))
         else if truthy analysis_id' then
           ebind (int_param analysis_id')
             (\<lambda>a. return_dataframe (filter (analysis_id_eq a) query))
         else return_dataframe query)"

definition get_results_by_sample :: "session \<Rightarrow> pyval \<Rightarrow> error + dataframe" where
  "get_results_by_sample s sample_name' =
     (let query = query_join s
      in if truthy sample_name' \<and> isinstance_list sample_name' then
           ebind (traverse str_param (list_items sample_name'))
             (\<lambda>ns. return_dataframe (filter (sample_name_in ns) query))
         else if truthy sample_name' then
           ebind (str_param sample_name')
             (\<lambda>n. return_dataframe (filter (sample_name_eq n) query))
         else return_dataframe query)"

section \<open>\<^verbatim>\<open>get_analyses\<close>\<close>

definition opt_date :: "(nat \<times> nat \<times> nat) option \<Rightarrow> pyval" where
  "opt_date x = (case x of None \<Rightarrow> Atom SNone | Some (y, m, d) \<Rightarrow> Atom (SDate y m d))"

definition display :: "analysis \<Rightarrow> odict" where
  "display self =
     [(''analysis_id'', Atom (SInt (analysis.analysis_id self))),
      (''analysis_name'', Atom (SStr (analysis_name self))),
      (''date'', opt_date (date self)),
      (''department'', Atom (SStr (department self))),
      (''analyst'', Atom (SStr (analyst self)))]"

definition get_analyses :: "session \<Rightarrow> dataframe" where
  "get_analyses s = DataFrame (map display (analyses s))"

section \<open>\<^verbatim>\<open>filter_dataframe\<close>\<close>

text \<open>
  Comparison of Python objects. Booleans, integers and floats compare by their numeric
  value, strings character by character, dates by year, month and day; \<open><\<close> between
  values of two different kinds raises \<open>TypeError\<close>, while \<open>==\<close> is False there.
\<close>

fun num_of :: "scalar \<Rightarrow> rat option" where
  "num_of (SBool b) = Some (if b then 1 else 0)"
| "num_of (SInt i) = Some (of_int i)"
| "num_of (SFloat x) = Some x"
| "num_of v = None"

fun str_lt :: "string \<Rightarrow> string \<Rightarrow> bool" where
  "str_lt [] [] = False"
| "str_lt [] (y # ys) = True"
| "str_lt (x # xs) [] = False"
| "str_lt (x # xs) (y # ys) =
     ((of_char x :: nat) < of_char y \<or> (x = y \<and> str_lt xs ys))"

definition date_lt :: "nat \<times> nat \<times> nat \<Rightarrow> nat \<times> nat \<times> nat \<Rightarrow> bool" where
  "date_lt a b =
     (case (a, b) of ((y, m, d), (y', m', d')) \<Rightarrow>
        y < y' \<or> (y = y' \<and> (m < m' \<or> (m = m' \<and> d < d'))))"

definition py_eq :: "scalar \<Rightarrow> scalar \<Rightarrow> bool" where
  "py_eq a b =
     (case (num_of a, num_of b) of
        (Some x, Some y) \<Rightarrow> x = y
      | _ \<Rightarrow> a = b)"

definition py_lt :: "scalar \<Rightarrow> scalar \<Rightarrow> error + bool" where
  "py_lt a b =
     (case (num_of a, num_of b) of
        (Some x, Some y) \<Rightarrow> Inr (x < y)
      | _ \<Rightarrow>
        (case (a, b) of
           (SStr s, SStr t) \<Rightarrow> Inr (str_lt s t)
         | (SDate y m d, SDate y' m' d') \<Rightarrow> Inr (date_lt (y, m, d) (y', m', d'))
         | _ \<Rightarrow> Inl TypeError))"

text \<open>
  A column compared with a value, cell by cell, as pandas compares a column of Python
  objects with a scalar: a missing cell (\<open>NaN\<close> or \<open>None\<close>) compares False, any other
  cell is compared as the Python object it holds. (On a column of a numeric dtype pandas
  decides \<open><\<close> and \<open>>\<close> against a value of another kind by the dtype, before it looks
  at a cell; columns are not typed here.)
\<close>

fun cell_eq :: "scalar \<Rightarrow> cell \<Rightarrow> bool" where
  "cell_eq v NaN = False"
| "cell_eq v (Cell (Atom SNone)) = False"
| "cell_eq v (Cell (Atom a)) = py_eq a v"
| "cell_eq v (Cell x) = False"

fun cell_gt :: "scalar \<Rightarrow> cell \<Rightarrow> error + bool" where
  "cell_gt v NaN = Inr False"
| "cell_gt v (Cell (Atom SNone)) = Inr False"
| "cell_gt v (Cell (Atom a)) = py_lt v a"
| "cell_gt v (Cell x) = Inl TypeError"

fun cell_lt :: "scalar \<Rightarrow> cell \<Rightarrow> error + bool" where
  "cell_lt v NaN = Inr False"
| "cell_lt v (Cell (Atom SNone)) = Inr False"
| "cell_lt v (Cell (Atom a)) = py_lt a v"
| "cell_lt v (Cell x) = Inl TypeError"

text \<open>\<^verbatim>\<open>df[name]\<close>: the column of that name, or \<open>KeyError\<close>.\<close>

definition getitem :: "dataframe \<Rightarrow> string \<Rightarrow> error + cell list" where
  "getitem df name =
     (case index_of (columns df) name of
        None \<Rightarrow> Inl KeyError
      | Some j \<Rightarrow> Inr (map (\<lambda>r. cell_at r j) (cells df)))"

text \<open>\<^verbatim>\<open>df[mask]\<close>: the rows whose entry of the boolean mask is True.\<close>

definition getitem_mask :: "dataframe \<Rightarrow> bool list \<Rightarrow> dataframe" where
  "getitem_mask df keep = df\<lparr>cells := map fst (filter snd (zip (cells df) keep))\<rparr>"

text \<open>
  The loop over \<^verbatim>\<open>filter_kwargs.items()\<close>; the mapping is the list of its entries in
  the order of the dict.
\<close>

fun filter_dataframe :: "dataframe \<Rightarrow> (string \<times> scalar) list \<Rightarrow> error + dataframe" where
  "filter_dataframe df [] = Inr df"
| "filter_dataframe df ((column_name, value) # filter_kwargs) =
     (if truthy_scalar value then
        (if column_name = ''date_after'' then
           ebind (getitem df ''date'') (\<lambda>col.
           ebind (traverse (cell_gt value) col) (\<lambda>mask.
           filter_dataframe (getitem_mask df mask) filter_kwargs))
         else if column_name = ''date_before'' then
           ebind (getitem df ''date'') (\<lambda>col.
           ebind (traverse (cell_lt value) col) (\<lambda>mask.
           filter_dataframe (getitem_mask df mask) filter_kwargs))
         else
           ebind (getitem df column_name) (\<lambda>col.
           filter_dataframe (getitem_mask df (map (cell_eq value) col)) filter_kwargs))
      else filter_dataframe df filter_kwargs)"








section \<open>The command \<^verbatim>\<open>display_analyses\<close>\<close>

text \<open>
  The declarations of the four \<^verbatim>\<open>@click.option\<close> decorators, in the order in which
  the options are listed, and the parameters of the handler.
\<close>

definition display_analyses_options :: "string list list" where
  "display_analyses_options =
     [[''-a'', ''--date-after''],
      [''-b'', ''--date-before''],
      [''-d'', ''--department''],
      [''-n'', ''--analyst-name'']]"

definition display_analyses_parameters :: "string list" where
  "display_analyses_parameters =
     [''ctx'', ''date_after'', ''date_before'', ''department'', ''analyst'']"

text \<open>
  The name under which click passes the value of an option that declares no name of its
  own: the first of its declarations with the longest prefix of dashes, without the
  prefix, with every dash replaced by an underscore, in lower case.
\<close>

definition split_opt :: "string \<Rightarrow> string \<times> string" where
  "split_opt opt =
     (if take 2 opt = ''--'' then (''--'', drop 2 opt)
      else if take 1 opt = ''-'' then (''-'', drop 1 opt)
      else ([], opt))"

definition lower :: "char \<Rightarrow> char" where
  "lower c =
     (if (65::nat) \<le> of_char c \<and> (of_char c :: nat) \<le> 90 then char_of ((of_char c :: nat) + 32)
      else c)"

definition option_name :: "string list \<Rightarrow> string option" where
  "option_name decls =
     (let possible_names = map split_opt decls;
          sorted_names = filter (\<lambda>p. length (fst p) = 2) possible_names
                       @ filter (\<lambda>p. length (fst p) = 1) possible_names
                       @ filter (\<lambda>p. length (fst p) = 0) possible_names
      in case sorted_names of
           [] \<Rightarrow> None
         | p # ps \<Rightarrow> Some (map (\<lambda>c. lower (if c = CHR ''-'' then CHR ''_'' else c)) (snd p)))"

text \<open>
  A Python call \<^verbatim>\<open>f(a1, ..., an, **kwargs)\<close> of a function whose parameters have no
  defaults: it raises \<open>TypeError\<close> on a keyword that is no parameter, on a keyword for a
  parameter already given by position, and on a parameter left without a value;
  otherwise the body runs with the keywords bound.
\<close>

definition py_call ::
  "string list \<Rightarrow> nat \<Rightarrow> (string \<times> 'v) list \<Rightarrow> error + (string \<times> 'v) list" where
  "py_call parameters n kwargs =
     (if list_ex (\<lambda>k. k \<notin> set parameters) (map fst kwargs) then Inl TypeError
      else if list_ex (\<lambda>k. k \<in> set (take n parameters)) (map fst kwargs) then Inl TypeError
      else if list_ex (\<lambda>p. p \<notin> set (map fst kwargs)) (drop n parameters) then Inl TypeError
      else Inr kwargs)"

definition arg :: "(string \<times> scalar) list \<Rightarrow> string \<Rightarrow> scalar" where
  "arg kwargs name = (case map_of kwargs name of None \<Rightarrow> SNone | Some v \<Rightarrow> v)"

text \<open>
  The body of the handler, up to the table that it prints or writes, and the call that
  click makes: the context by position, every declared option by keyword under its name.
\<close>

definition display_analyses ::
  "session \<Rightarrow> scalar \<Rightarrow> scalar \<Rightarrow> scalar \<Rightarrow> scalar \<Rightarrow> error + dataframe" where
  "display_analyses s date_after date_before department' analyst' =
     (let filter_kwargs = [(''date_after'', date_after),
                           (''date_before'', date_before),
                           (''department'', department'),
                           (''analyst'', analyst')];
          df = get_analyses s
      in filter_dataframe df filter_kwargs)"

definition invoke_display_analyses :: "session \<Rightarrow> scalar list \<Rightarrow> error + dataframe" where
  "invoke_display_analyses s vs =
     ebind (traverse (\<lambda>decls. case option_name decls of None \<Rightarrow> Inl TypeError | Some n \<Rightarrow> Inr n)
              display_analyses_options) (\<lambda>names.
     ebind (py_call display_analyses_parameters 1 (zip names vs)) (\<lambda>kwargs.
     display_analyses s (arg kwargs ''date_after'') (arg kwargs ''date_before'')
       (arg kwargs ''department'') (arg kwargs ''analyst'')))"

section \<open>Example data\<close>

text \<open>Two samples of two analyses, with one result each and different metrics.\<close>

definition lab_session :: session where
  "lab_session =
     \<lparr>analyses = [],
      samples =
        [\<lparr>sample.sample_id = 1, sample_name = ''S01'', sample_type = None,
          sample_description = None, sample.analysis_id = Some 1\<rparr>,
         \<lparr>sample.sample_id = 2, sample_name = ''S02'', sample_type = None,
          sample_description = None, sample.analysis_id = Some 2\<rparr>],
      results =
        [\<lparr>result_id = 1, sample_id = Some 1,
          metrics = PDict [(''temp'', Atom (SFloat (372 / 10))),
                           (''ph'', Atom (SFloat (71 / 10)))]\<rparr>,
         \<lparr>result_id = 2, sample_id = Some 2,
          metrics = PDict [(''temp'', Atom (SFloat (366 / 10))),
                           (''rpm'', Atom (SInt 900))]\<rparr>]\<rparr>"

text \<open>The table of all their joined rows.\<close>

definition lab_frame :: dataframe where
  "lab_frame =
     \<lparr>columns = [''sample_name'', ''analysis_id'', ''temp'', ''ph'', ''rpm''],
      cells = [[Cell (Atom (SStr ''S01'')), Cell (Atom (SInt 1)),
                Cell (Atom (SFloat (372 / 10))), Cell (Atom (SFloat (71 / 10))), NaN],
               [Cell (Atom (SStr ''S02'')), Cell (Atom (SInt 2)),
                Cell (Atom (SFloat (366 / 10))), NaN, Cell (Atom (SInt 900))]]\<rparr>"

text \<open>
  A table of two analyses, dated 2019-12-31 and 2020-06-01, as \<^verbatim>\<open>get_analyses\<close>
  builds it.
\<close>

definition analyses_frame :: dataframe where
  "analyses_frame =
     \<lparr>columns = [''analysis_id'', ''analysis_name'', ''date'', ''department'', ''analyst''],
      cells = [[Cell (Atom (SInt 1)), Cell (Atom (SStr ''stability'')),
                Cell (Atom (SDate 2019 12 31)), Cell (Atom (SStr ''QC'')),
                Cell (Atom (SStr ''DMT''))],
               [Cell (Atom (SInt 2)), Cell (Atom (SStr ''release'')),
                Cell (Atom (SDate 2020 6 1)), Cell (Atom (SStr ''QC'')),
                Cell (Atom (SStr ''DMT''))]]\<rparr>"

section \<open>Lemmas on the containers\<close>

lemma set_add_keys: "set (add_keys acc ks) = set acc \<union> set ks"
  by (induction acc ks rule: add_keys.induct) auto

lemma distinct_add_keys: "distinct acc \<Longrightarrow> distinct (add_keys acc ks)"
  by (induction acc ks rule: add_keys.induct) auto

lemma set_union_keys: "set (union_keys acc ds) = set acc \<union> (\<Union>d\<in>set ds. fst ` set d)"
  by (induction acc ds rule: union_keys.induct) (auto simp: set_add_keys)

lemma distinct_union_keys: "distinct acc \<Longrightarrow> distinct (union_keys acc ds)"
  by (induction acc ds rule: union_keys.induct) (auto simp: distinct_add_keys)

lemma index_of_None_iff: "index_of cs k = None \<longleftrightarrow> k \<notin> set cs"
  by (induction cs) auto

lemma index_of_Some: "index_of cs k = Some j \<Longrightarrow> j < length cs \<and> cs ! j = k"
  by (induction cs arbitrary: j) (auto split: if_splits)

lemma index_of_mem: "k \<in> set cs \<Longrightarrow> \<exists>j. index_of cs k = Some j"
  using index_of_None_iff [of cs k] by (cases "index_of cs k") auto


lemma keys_od_setitem: "fst ` set (od_setitem d k v) = insert k (fst ` set d)"
  by (induction d k v rule: od_setitem.induct) auto


lemma keys_od_update: "fst ` set (od_update d kvs) = fst ` set d \<union> fst ` set kvs"
  by (induction d kvs rule: od_update.induct) (auto simp: keys_od_setitem)


lemma traverse_total:
  "\<forall>x\<in>set xs. \<exists>b. f x = Inr b \<Longrightarrow> \<exists>ys. traverse f xs = Inr ys"
  by (induction xs) (auto simp: ebind_def)


lemma traverse_int_atoms: "traverse int_param (map (\<lambda>i. Atom (SInt i)) as) = Inr as"
  by (induction as) (simp_all add: ebind_def)

lemma traverse_str_atoms: "traverse str_param (map (\<lambda>n. Atom (SStr n)) ns) = Inr ns"
  by (induction ns) (simp_all add: ebind_def)


lemma filter_mset_union:
  "mset (filter (\<lambda>x. f x \<in> set ns) xs) = (\<Sum>n\<in>set ns. mset (filter (\<lambda>x. f x = n) xs))"
proof (induction xs)
  case Nil
  show ?case by simp
next
  case (Cons x xs)
  have "(\<Sum>n\<in>set ns. mset (filter (\<lambda>x. f x = n) (x # xs))) =
        (\<Sum>n\<in>set ns. (if f x = n then {#x#} else {#}) + mset (filter (\<lambda>x. f x = n) xs))"
    by (rule sum.cong) auto
  also have "\<dots> = (\<Sum>n\<in>set ns. (if f x = n then {#x#} else {#}))
                  + (\<Sum>n\<in>set ns. mset (filter (\<lambda>x. f x = n) xs))"
    by (simp add: sum.distrib)
  also have "(\<Sum>n\<in>set ns. (if f x = n then {#x#} else {#})) =
             (if f x \<in> set ns then {#x#} else {#})"
    by simp
  finally show ?case using Cons.IH by simp
qed

lemma analysis_id_in_single: "analysis_id_in [a] = analysis_id_eq a"
  by (auto simp: analysis_id_in_def analysis_id_eq_def fun_eq_iff split: option.splits)

lemmas lab_eval =
  query_join_def lab_session_def return_dataframe_def flatten_record_def ebind_def
  DataFrame_def dict_cell_def opt_int_def

section \<open>Lemmas on the flattening\<close>


lemma traverse_map:
  "\<forall>x\<in>set xs. f x = Inr (g x) \<Longrightarrow> traverse f xs = Inr (map g xs)"
  by (induction xs) (simp_all add: ebind_def)

lemma flatten_loop_traverse:
  "flatten_loop acc q = ebind (traverse flatten_record q) (\<lambda>rs. Inr (acc @ rs))"
proof (induction q arbitrary: acc)
  case Nil
  show ?case by (simp add: ebind_def)
next
  case (Cons rec q)
  show ?case
    by (cases "flatten_record rec"; cases "traverse flatten_record q")
       (simp_all add: Cons.IH ebind_def)
qed



lemma flatten_record_keys:
  "flatten_record rec = Inr row \<Longrightarrow>
   fst ` set row = {''sample_name'', ''analysis_id''} \<union> set (metric_keys (metrics (fst rec)))"
proof -
  assume a: "flatten_record rec = Inr row"
  obtain r s where rec: "rec = (r, s)" by (cases rec)
  from a rec obtain m where m: "metrics r = PDict m"
    by (cases "metrics r") (auto simp: flatten_record_def ebind_def)
  from a rec m have "row = od_update [(''sample_name'', Atom (SStr (sample_name s))),
                     (''analysis_id'', opt_int (sample.analysis_id s))] m"
    by (simp add: flatten_record_def ebind_def)
  then show ?thesis by (simp add: keys_od_update rec m insert_commute)
qed

lemma flatten_record_is_dict:
  "is_dict (metrics (fst rec)) \<Longrightarrow> \<exists>row. flatten_record rec = Inr row"
  by (cases rec; cases "metrics (fst rec)") (auto simp: flatten_record_def ebind_def)

lemma length_cells_DataFrame: "length (cells (DataFrame ds)) = length ds"
  by (simp add: DataFrame_def Let_def)

lemma columns_DataFrame: "set (columns (DataFrame ds)) = (\<Union>d\<in>set ds. fst ` set d)"
  by (simp add: DataFrame_def Let_def set_union_keys)

lemma loc_DataFrame:
  assumes "i < length ds" "k \<in> set (columns (DataFrame ds))"
  shows "loc (DataFrame ds) i k = Inr (dict_cell (ds ! i) k)"
proof -
  from assms(2) have "k \<in> set (union_keys [] ds)" by (simp add: DataFrame_def Let_def)
  then obtain j where j: "index_of (union_keys [] ds) k = Some j" using index_of_mem by blast
  from index_of_Some [OF j] show ?thesis using assms(1) j
    by (simp add: loc_def DataFrame_def Let_def cell_at_def)
qed


lemma map_of_absent: "k \<notin> fst ` set d \<Longrightarrow> map_of d k = None"
  by (simp add: map_of_eq_None_iff)


lemma dict_cell_absent: "k \<notin> fst ` set d \<Longrightarrow> dict_cell d k = NaN"
  by (simp add: dict_cell_def map_of_absent)





lemma distinct_columns_DataFrame: "distinct (columns (DataFrame ds))"
  by (simp add: DataFrame_def Let_def distinct_union_keys)

section \<open>Lemmas on the filter\<close>
















lemma filter_dataframe_falsy:
  "\<not> truthy_scalar v \<Longrightarrow> filter_dataframe df ((n, v) # rest) = filter_dataframe df rest"
  by simp










lemma filter_dataframe_skip:
  "filter_dataframe df fk =
   filter_dataframe df (filter (\<lambda>entry. truthy_scalar (snd entry)) fk)"
proof (induction fk arbitrary: df)
  case Nil
  show ?case by simp
next
  case (Cons entry rest)
  obtain n v where entry: "entry = (n, v)" by (cases entry)
  show ?case
  proof (cases "truthy_scalar v")
    case False
    then show ?thesis using Cons.IH by (simp add: entry)
  next
    case True
    then show ?thesis using Cons.IH by (simp add: entry)
  qed
qed

lemma filter_dataframe_all_falsy:
  "\<forall>entry\<in>set fk. \<not> truthy_scalar (snd entry) \<Longrightarrow> filter_dataframe df fk = Inr df"
  by (induction fk) auto


section \<open>Lemmas on the command\<close>

lemma option_names:
  "map option_name display_analyses_options =
     [Some ''date_after'', Some ''date_before'', Some ''department'', Some ''analyst_name'']"
  by (simp add: display_analyses_options_def option_name_def split_opt_def lower_def)

lemma traverse_names:
  "traverse (\<lambda>decls. case option_name decls of None \<Rightarrow> Inl TypeError | Some n \<Rightarrow> Inr n)
     display_analyses_options =
   Inr [''date_after'', ''date_before'', ''department'', ''analyst_name'']"
  using option_names by (simp add: display_analyses_options_def ebind_def)

lemma py_call_missing:
  "p \<in> set (drop n parameters) \<Longrightarrow> p \<notin> fst ` set kwargs \<Longrightarrow>
   py_call parameters n kwargs = Inl TypeError"
  by (auto simp: py_call_def list_ex_iff)

section \<open>Results by analysis and by sample\<close>

text \<open>
  C1. For every analysis identifier \<open>a\<close>, \<^verbatim>\<open>get_results_by_analysis\<close> called with the
  one-element list \<open>[a]\<close> returns the table of exactly the joined (Result, Sample) rows
  whose sample has analysis id \<open>a\<close>: the rows of the join that pass the test, each as
  often as the join has it, and no other row.
\<close>

theorem by_analysis_singleton:
  "get_results_by_analysis s (PList [Atom (SInt a)]) =
     return_dataframe (filter (analysis_id_eq a) (query_join s))"
  using traverse_int_atoms [of "[a]"]
  by (simp add: get_results_by_analysis_def ebind_def analysis_id_in_single del: traverse.simps)

theorem by_analysis_singleton_lab:
  "get_results_by_analysis lab_session (PList [Atom (SInt 1)]) =
     Inr \<lparr>columns = [''sample_name'', ''analysis_id'', ''temp'', ''ph''],
          cells = [[Cell (Atom (SStr ''S01'')), Cell (Atom (SInt 1)),
                    Cell (Atom (SFloat (372 / 10))), Cell (Atom (SFloat (71 / 10)))]]\<rparr>"
  unfolding by_analysis_singleton [of lab_session 1]
  by (simp add: lab_eval analysis_id_eq_def)

text \<open>
  C6. Called without an identifier (the default \<open>None\<close>), \<^verbatim>\<open>get_results_by_analysis\<close>
  returns the table of all rows of the join of results and samples.
\<close>

theorem by_analysis_no_filter:
  "get_results_by_analysis s (Atom SNone) = return_dataframe (query_join s)"
  by (simp add: get_results_by_analysis_def)

theorem by_analysis_no_filter_lab:
  "get_results_by_analysis lab_session (Atom SNone) =
     Inr \<lparr>columns = [''sample_name'', ''analysis_id'', ''temp'', ''ph'', ''rpm''],
          cells = [[Cell (Atom (SStr ''S01'')), Cell (Atom (SInt 1)),
                    Cell (Atom (SFloat (372 / 10))), Cell (Atom (SFloat (71 / 10))), NaN],
                   [Cell (Atom (SStr ''S02'')), Cell (Atom (SInt 2)),
                    Cell (Atom (SFloat (366 / 10))), NaN, Cell (Atom (SInt 900))]]\<rparr>"
  unfolding by_analysis_no_filter [of lab_session]
  by (simp add: lab_eval)



text \<open>
  C4. For every non-empty list of sample names, \<^verbatim>\<open>get_results_by_sample\<close> returns the
  table of the rows of the join whose sample name is in the list. These rows are the
  union, over the distinct names of the list, of the rows whose sample has that name: a
  row of the join occurs in the result as often as in the join, however often its name is
  listed. (For the empty list this does not hold: every row is returned.)
\<close>

theorem by_sample_names:
  "ns \<noteq> [] \<Longrightarrow>
     get_results_by_sample s (PList (map (\<lambda>n. Atom (SStr n)) ns)) =
       return_dataframe (filter (sample_name_in ns) (query_join s)) \<and>
     mset (filter (sample_name_in ns) (query_join s)) =
       (\<Sum>n\<in>set ns. mset (filter (sample_name_eq n) (query_join s)))"
  using filter_mset_union [of "\<lambda>rec. sample_name (snd rec)" ns "query_join s"]
  by (simp add: get_results_by_sample_def ebind_def traverse_str_atoms
        sample_name_in_def [abs_def] sample_name_eq_def [abs_def])

theorem by_sample_names_lab:
  "[''S02'', ''S02''] \<noteq> [] \<and>
   get_results_by_sample lab_session (PList [Atom (SStr ''S02''), Atom (SStr ''S02'')]) =
     Inr \<lparr>columns = [''sample_name'', ''analysis_id'', ''temp'', ''rpm''],
          cells = [[Cell (Atom (SStr ''S02'')), Cell (Atom (SInt 2)),
                    Cell (Atom (SFloat (366 / 10))), Cell (Atom (SInt 900))]]\<rparr>"
  using by_sample_names [of "[''S02'', ''S02'']" lab_session]
  by (simp add: lab_eval sample_name_in_def)

theorem by_sample_empty_names_all_rows:
  "get_results_by_sample lab_session (PList []) \<noteq>
     return_dataframe (filter (sample_name_in []) (query_join lab_session))"
  by (simp add: get_results_by_sample_def lab_eval sample_name_in_def)

section \<open>Flattening\<close>



text \<open>
  C7. For every list of joined pairs whose metrics are dicts, whatever their keys,
  \<^verbatim>\<open>return_dataframe\<close> returns a table. It has one row per pair; its columns, each
  listed once, are the keys met in the rows: \<open>sample_name\<close> and \<open>analysis_id\<close> (as soon
  as there is a row) together with the union of the keys of all metrics; and the row of a
  pair holds the missing value \<open>NaN\<close> in every column that is none of its own keys.
\<close>

theorem flatten_heterogeneous:
  assumes dicts: "\<forall>rec\<in>set q. is_dict (metrics (fst rec))"
  shows "\<exists>df. return_dataframe q = Inr df \<and> length (cells df) = length q \<and>
     distinct (columns df) \<and>
     set (columns df) =
       (\<Union>rec\<in>set q. {''sample_name'', ''analysis_id''} \<union> set (metric_keys (metrics (fst rec)))) \<and>
     (\<forall>i<length q. \<forall>k\<in>set (columns df).
        k \<notin> {''sample_name'', ''analysis_id''} \<union> set (metric_keys (metrics (fst (q ! i)))) \<longrightarrow>
        loc df i k = Inr NaN)"
proof -
  define g where "g rec = projr (flatten_record rec)" for rec
  have fr: "flatten_record rec = Inr (g rec)" if "rec \<in> set q" for rec
    using flatten_record_is_dict [of rec] dicts that by (auto simp: g_def)
  then have tr: "traverse flatten_record q = Inr (map g q)"
    by (intro traverse_map) blast
  have keys: "fst ` set (g rec) =
      {''sample_name'', ''analysis_id''} \<union> set (metric_keys (metrics (fst rec)))"
    if "rec \<in> set q" for rec
    by (rule flatten_record_keys [OF fr [OF that]])
  let ?df = "DataFrame (map g q)"
  have ret: "return_dataframe q = Inr ?df"
    by (simp add: return_dataframe_def flatten_loop_traverse tr ebind_def)
  have len: "length (cells ?df) = length q" by (simp add: length_cells_DataFrame)
  have cols: "set (columns ?df) =
       (\<Union>rec\<in>set q. {''sample_name'', ''analysis_id''} \<union> set (metric_keys (metrics (fst rec))))"
    unfolding columns_DataFrame using keys by simp
  have nan: "loc ?df i k = Inr NaN"
    if i: "i < length q" and k: "k \<in> set (columns ?df)"
      and nk: "k \<notin> {''sample_name'', ''analysis_id''} \<union> set (metric_keys (metrics (fst (q ! i))))"
    for i k
  proof -
    have "q ! i \<in> set q" using i by simp
    from keys [OF this] nk have "k \<notin> fst ` set (map g q ! i)" using i by simp
    then have "dict_cell (map g q ! i) k = NaN" by (rule dict_cell_absent)
    moreover have "loc ?df i k = Inr (dict_cell (map g q ! i) k)"
      by (rule loc_DataFrame) (use i k in simp_all)
    ultimately show ?thesis by simp
  qed
  from ret len cols nan distinct_columns_DataFrame [of "map g q"] show ?thesis by blast
qed

theorem flatten_heterogeneous_lab:
  "list_all (\<lambda>rec. is_dict (metrics (fst rec))) (query_join lab_session) \<and>
   return_dataframe (query_join lab_session) = Inr lab_frame \<and>
   set (columns lab_frame) = {''sample_name'', ''analysis_id'', ''temp'', ''ph'', ''rpm''} \<and>
   loc lab_frame 0 ''rpm'' = Inr NaN \<and>
   loc lab_frame 1 ''ph'' = Inr NaN"
proof -
  have dicts: "\<forall>rec\<in>set (query_join lab_session). is_dict (metrics (fst rec))"
    by (simp add: query_join_def lab_session_def)
  have ret: "return_dataframe (query_join lab_session) = Inr lab_frame"
    by (simp add: lab_eval lab_frame_def)
  from flatten_heterogeneous [OF dicts] ret
  have nan: "\<forall>i<length (query_join lab_session). \<forall>k\<in>set (columns lab_frame).
        k \<notin> {''sample_name'', ''analysis_id''}
              \<union> set (metric_keys (metrics (fst (query_join lab_session ! i)))) \<longrightarrow>
        loc lab_frame i k = Inr NaN"
    by auto
  have len: "length (query_join lab_session) = 2"
    by (simp add: query_join_def lab_session_def)
  have "loc lab_frame 0 ''rpm'' = Inr NaN"
    using nan [rule_format, of 0 "''rpm''"] len
    by (simp add: lab_frame_def query_join_def lab_session_def)
  moreover have "loc lab_frame 1 ''ph'' = Inr NaN"
    using nan [rule_format, of 1 "''ph''"] len
    by (simp add: lab_frame_def query_join_def lab_session_def)
  moreover have "set (columns lab_frame) = {''sample_name'', ''analysis_id'', ''temp'', ''ph'', ''rpm''}"
    by (simp add: lab_frame_def)
  ultimately show ?thesis using dicts ret by (simp add: list_all_iff)
qed

section \<open>The tabular filter\<close>



text \<open>
  C5. An entry whose value is falsy is skipped wherever it stands in the mapping, so a
  mapping of falsy values only (such as \<open>department: None\<close>) returns the table as it
  is.
\<close>

theorem filter_skips_falsy:
  "filter_dataframe df fk =
     filter_dataframe df (filter (\<lambda>entry. truthy_scalar (snd entry)) fk) \<and>
   ((\<forall>entry\<in>set fk. \<not> truthy_scalar (snd entry)) \<longrightarrow> filter_dataframe df fk = Inr df)"
  using filter_dataframe_skip [of df fk] filter_dataframe_all_falsy [of fk df]
  by blast

theorem filter_skips_falsy_department:
  "\<not> truthy_scalar SNone \<and> \<not> truthy_scalar (SStr []) \<and>
   filter_dataframe analyses_frame [(''department'', SNone), (''analyst'', SStr [])] =
     Inr analyses_frame"
  using filter_skips_falsy [of analyses_frame "[(''department'', SNone), (''analyst'', SStr [])]"]
  by simp




section \<open>The command line\<close>

text \<open>
  C9. The options declared for \<^verbatim>\<open>display_analyses\<close> are passed under the names
  \<open>date_after\<close>, \<open>date_before\<close>, \<open>department\<close> and \<open>analyst_name\<close>, while the handler
  has a parameter \<open>analyst\<close>, which no option binds, and none called \<open>analyst_name\<close>.
  So the call that click makes never binds the parameters of the handler: whatever the
  values of the options, invoking the command raises \<open>TypeError\<close> before the body runs.
\<close>

theorem display_analyses_unbound_analyst:
  "map option_name display_analyses_options =
     [Some ''date_after'', Some ''date_before'', Some ''department'', Some ''analyst_name''] \<and>
   ''analyst'' \<in> set display_analyses_parameters \<and>
   Some ''analyst'' \<notin> set (map option_name display_analyses_options) \<and>
   ''analyst_name'' \<notin> set display_analyses_parameters \<and>
   invoke_display_analyses s vs = Inl TypeError"
proof -
  let ?names = "[''date_after'', ''date_before'', ''department'', ''analyst_name'']"
  have "''analyst'' \<notin> fst ` set (zip ?names vs)"
  proof
    assume "''analyst'' \<in> fst ` set (zip ?names vs)"
    then obtain v where "(''analyst'', v) \<in> set (zip ?names vs)" by auto
    then have "''analyst'' \<in> set ?names" by (rule set_zip_leftD)
    then show False by simp
  qed
  moreover have "''analyst'' \<in> set (drop 1 display_analyses_parameters)"
    by (simp add: display_analyses_parameters_def)
  ultimately have "py_call display_analyses_parameters 1 (zip ?names vs) = Inl TypeError"
    by (rule py_call_missing [rotated])
  then have "invoke_display_analyses s vs = Inl TypeError"
    by (simp add: invoke_display_analyses_def traverse_names ebind_def)
  moreover have "Some ''analyst'' \<notin> set (map option_name display_analyses_options)"
    unfolding option_names by simp
  ultimately show ?thesis
    using option_names by (simp add: display_analyses_parameters_def)
qed

theorem display_analyses_unbound_analyst_defaults:
  "invoke_display_analyses lab_session [SDate 2015 1 1, SDate 2026 11 3, SNone, SNone] = Inl TypeError \<and>
   py_call display_analyses_parameters 1
     (zip [''date_after'', ''date_before'', ''department'', ''analyst_name'']
          [SDate 2015 1 1, SDate 2026 11 3, SNone, SNone]) = Inl TypeError"
  using display_analyses_unbound_analyst [of lab_session "[SDate 2015 1 1, SDate 2026 11 3, SNone, SNone]"]
  by (simp add: py_call_def display_analyses_parameters_def)

end
